theory Spec2Isabelle
  imports Complex_Main
begin

section \<open>Values, exceptions and messages\<close>

text \<open>
  The program is a Flask application (\<^verbatim>\<open>app.py\<close>) that imports rows of a CSV file
  into a document collection and serves them back. A row is the dictionary that
  \<^verbatim>\<open>df.to_dict('records')\<close> yields for one data line: column name to cell value.
  A cell read by pandas is a string, an integer, a float (an empty cell is the float NaN)
  or a boolean; \<open>VNone\<close> stands for Python's \<^verbatim>\<open>None\<close>.
  Only the sign, zero-ness and integral part of a float matter to \<^verbatim>\<open>int\<close> and
  \<^verbatim>\<open>bool\<close>, so a finite float is represented by the rational it denotes.
  Strings are sequences of bytes; text outside ASCII is written byte by byte in UTF-8.
\<close>

datatype pyfloat = Finite rat | PosInf | NegInf | NaN

datatype pyval = VStr string | VInt int | VFloat pyfloat | VBool bool | VNone

type_synonym row = "string \<rightharpoonup> pyval"

datatype pyexn =
    ValueError | TypeError | OverflowError | ZeroDivisionError | KeyError
  | FileNotFoundError | ExternalError string

text \<open>
  A message built by an f-string is kept as the sequence of its parts: literal text,
  an interpolated number (rendered in decimal by Python) and an interpolated
  \<^verbatim>\<open>str(e)\<close> of an exception.
\<close>

datatype part = Lit string | Num nat | Str pyexn

type_synonym msg = "part list"

section \<open>Python's \<^verbatim>\<open>int\<close> and \<^verbatim>\<open>bool\<close>\<close>

definition is_space :: "char \<Rightarrow> bool" where
  "is_space c = (c = CHR '' '' \<or> (9 \<le> (of_char c :: nat) \<and> (of_char c :: nat) \<le> 13))"

definition is_digit :: "char \<Rightarrow> bool" where
  "is_digit c = (48 \<le> (of_char c :: nat) \<and> (of_char c :: nat) \<le> 57)"

definition digit_val :: "char \<Rightarrow> nat" where
  "digit_val c = of_char c - 48"

definition strip :: "string \<Rightarrow> string" where
  "strip s = rev (dropWhile is_space (rev (dropWhile is_space s)))"

text \<open>
  The digits of a literal after its first digit: digits, with a single underscore allowed
  between two digits.
\<close>

fun parse_digits :: "nat \<Rightarrow> string \<Rightarrow> nat option" where
  "parse_digits acc [] = Some acc"
| "parse_digits acc [c] = (if is_digit c then Some (10 * acc + digit_val c) else None)"
| "parse_digits acc (c # d # ds) =
     (if is_digit c then parse_digits (10 * acc + digit_val c) (d # ds)
      else if c = CHR ''_'' \<and> is_digit d then parse_digits (10 * acc + digit_val d) ds
      else None)"

definition parse_unsigned :: "string \<Rightarrow> nat option" where
  "parse_unsigned s =
     (case s of [] \<Rightarrow> None
      | c # cs \<Rightarrow> if is_digit c then parse_digits (digit_val c) cs else None)"

text \<open>
  \<^verbatim>\<open>int(s)\<close> for a string, base 10: surrounding whitespace, an optional sign, digits.
  Python also accepts digits and whitespace outside ASCII and refuses literals of more
  than 4300 digits; neither is modelled.
\<close>

definition int_of_str :: "string \<Rightarrow> int option" where
  "int_of_str s =
     (case strip s of
        [] \<Rightarrow> None
      | c # cs \<Rightarrow>
          if c = CHR ''-'' then map_option (\<lambda>n. - int n) (parse_unsigned cs)
          else if c = CHR ''+'' then map_option int (parse_unsigned cs)
          else map_option int (parse_unsigned (c # cs)))"

text \<open>\<^verbatim>\<open>int(x)\<close> of a float truncates towards zero; NaN and the infinities raise.\<close>

definition trunc :: "rat \<Rightarrow> int" where
  "trunc q = (if 0 \<le> q then \<lfloor>q\<rfloor> else \<lceil>q\<rceil>)"

fun py_int :: "pyval \<Rightarrow> pyexn + int" where
  "py_int (VStr s) = (case int_of_str s of None \<Rightarrow> Inl ValueError | Some n \<Rightarrow> Inr n)"
| "py_int (VInt n) = Inr n"
| "py_int (VFloat (Finite q)) = Inr (trunc q)"
| "py_int (VFloat NaN) = Inl ValueError"
| "py_int (VFloat PosInf) = Inl OverflowError"
| "py_int (VFloat NegInf) = Inl OverflowError"
| "py_int (VBool b) = Inr (if b then 1 else 0)"
| "py_int VNone = Inl TypeError"

text \<open>\<^verbatim>\<open>bool(x)\<close>: truthiness. It raises for none of these values.\<close>

fun py_bool :: "pyval \<Rightarrow> pyexn + bool" where
  "py_bool (VStr s) = Inr (s \<noteq> [])"
| "py_bool (VInt n) = Inr (n \<noteq> 0)"
| "py_bool (VFloat (Finite q)) = Inr (q \<noteq> 0)"
| "py_bool (VFloat NaN) = Inr True"
| "py_bool (VFloat PosInf) = Inr True"
| "py_bool (VFloat NegInf) = Inr True"
| "py_bool (VBool b) = Inr b"
| "py_bool VNone = Inr False"

fun is_str :: "pyval \<Rightarrow> bool" where
  "is_str (VStr s) = True"
| "is_str v = False"

section \<open>The row validator\<close>

definition required_fields :: "string list" where
  "required_fields =
     [''name'', ''last_name'', ''email'', ''age'', ''sex'',
      ''address'', ''country'', ''degree'', ''university'', ''status'']"

definition msg_missing :: "string \<Rightarrow> msg" where
  "msg_missing field = [Lit ''Campo requerido faltante: '', Lit field]"

text \<open>
  The message \<^verbatim>\<open>"Los campos 'age' y 'status' deben ser num..ricos/booleanos"\<close>;
  the accented letter is the two bytes C3 A9.
\<close>

definition msg_types :: msg where
  "msg_types =
     [Lit (''Los campos '' @ [CHR 0x27] @ ''age'' @ [CHR 0x27] @ '' y '' @ [CHR 0x27]
           @ ''status'' @ [CHR 0x27] @ '' deben ser num'' @ [CHR 0xC3, CHR 0xA9]
           @ ''ricos/booleanos'')]"

text \<open>The message \<^verbatim>\<open>"Datos v..lidos"\<close>; the accented letter is the two bytes C3 A1.\<close>

definition msg_valid :: msg where
  "msg_valid = [Lit (''Datos v'' @ [CHR 0xC3, CHR 0xA1] @ ''lidos'')]"

text \<open>The handler \<^verbatim>\<open>except (ValueError, TypeError)\<close>.\<close>

definition caught :: "pyexn \<Rightarrow> bool" where
  "caught ex = (ex = ValueError \<or> ex = TypeError)"

text \<open>
  \<^verbatim>\<open>validate_persona_data(data)\<close> returns a pair and updates \<open>data\<close> in place; the
  model returns the dictionary as the call leaves it together with the pair. \<open>Inl\<close> is an
  exception that leaves the function.
\<close>

definition validate_persona_data :: "row \<Rightarrow> pyexn + (row \<times> bool \<times> msg)" where
  "validate_persona_data data =
     (case find (\<lambda>field. data field = None) required_fields of
        Some field \<Rightarrow> Inr (data, False, msg_missing field)
      | None \<Rightarrow>
          (case data ''age'' of
             None \<Rightarrow> Inl KeyError
           | Some a \<Rightarrow>
               (case py_int a of
                  Inl ex \<Rightarrow> if caught ex then Inr (data, False, msg_types) else Inl ex
                | Inr n \<Rightarrow>
                    (let data1 = data(''age'' \<mapsto> VInt n) in
                     case data1 ''status'' of
                       None \<Rightarrow> Inl KeyError
                     | Some s \<Rightarrow>
                         (case (if is_str s then py_bool s else py_bool s) of
                            Inl ex \<Rightarrow>
                              if caught ex then Inr (data1, False, msg_types) else Inl ex
                          | Inr b \<Rightarrow>
                              Inr (data1(''status'' \<mapsto> VBool b), True, msg_valid))))))"

section \<open>The environment of a request\<close>

text \<open>
  The document store is the collection \<^verbatim>\<open>personas\<close>: document identifier to stored
  dictionary. The upload folder is a map from path to file content.
\<close>

type_synonym store = "string \<rightharpoonup> row"

record world =
  files :: "string \<rightharpoonup> string"
  personas :: store

text \<open>
  What the program obtains from its libraries is a parameter of the model:
  \<^item> \<open>secure_name\<close> is werkzeug's \<^verbatim>\<open>secure_filename\<close>;
  \<^item> \<open>save_exn\<close> is the exception \<^verbatim>\<open>file.save\<close> raises, if any;
  \<^item> \<open>read_csv\<close> is \<^verbatim>\<open>pd.read_csv\<close> followed by \<^verbatim>\<open>to_dict('records')\<close>, on the
    content of the saved file: the data rows in file order, or the parser's exception;
  \<^item> \<open>new_id i\<close> is the identifier \<^verbatim>\<open>generate_custom_id()\<close> draws while the row of
    index \<open>i\<close> is processed (twenty hexadecimal digits of a random UUID);
  \<^item> \<open>set_exn i\<close> is the exception the write of the row of index \<open>i\<close> raises, if any
    (this covers a client that failed to initialise, \<^verbatim>\<open>db = None\<close>);
  \<^item> \<open>query_page offset limit\<close> and \<open>stream_all\<close> are the two reads of the listing,
    \<^verbatim>\<open>persons_ref.offset(offset).limit(limit).stream()\<close> and \<^verbatim>\<open>persons_ref.stream()\<close>,
    each a list of documents or an exception;
  \<^item> \<open>get_exn\<close> is the exception \<^verbatim>\<open>doc_ref.get()\<close> raises, if any.
\<close>

record env =
  secure_name :: "string \<Rightarrow> string"
  save_exn :: "pyexn option"
  read_csv :: "string \<Rightarrow> pyexn + row list"
  new_id :: "nat \<Rightarrow> string"
  set_exn :: "nat \<Rightarrow> pyexn option"
  query_page :: "int \<Rightarrow> int \<Rightarrow> pyexn + (string \<times> row) list"
  stream_all :: "pyexn + (string \<times> row) list"
  get_exn :: "pyexn option"

text \<open>The uploaded file of a request: its name and its bytes.\<close>

datatype upload = Upload (filename: string) (content: string)

text \<open>
  The JSON bodies the handlers return. \<open>errors\<close> is \<open>None\<close> when the key is absent.
\<close>

datatype body =
    Message (body_success: bool) (body_message: msg)
  | Report (body_success: bool) (body_message: msg) (body_inserted_count: nat)
      (body_total_records: nat) (body_errors: "msg list option")
  | Listing (body_success: bool) (body_data: "row list") (body_total: int) (body_page: int)
      (body_limit: int) (body_pages: int)
  | Person (body_success: bool) (body_person: row)

type_synonym response = "body \<times> nat"

section \<open>The upload\<close>

definition lower :: "char \<Rightarrow> char" where
  "lower c =
     (if 65 \<le> (of_char c :: nat) \<and> (of_char c :: nat) \<le> 90
      then char_of ((of_char c :: nat) + 32) else c)"

text \<open>\<^verbatim>\<open>filename.rsplit('.', 1)[1]\<close>: what follows the last dot.\<close>

definition extension :: "string \<Rightarrow> string" where
  "extension fn = rev (takeWhile (\<lambda>c. c \<noteq> CHR ''.'') (rev fn))"

definition allowed_file :: "string \<Rightarrow> bool" where
  "allowed_file fn = (CHR ''.'' \<in> set fn \<and> map lower (extension fn) \<in> {''csv''})"

text \<open>\<^verbatim>\<open>os.remove(path)\<close>\<close>

definition os_remove :: "string \<Rightarrow> (string \<rightharpoonup> string) \<Rightarrow> pyexn + (string \<rightharpoonup> string)" where
  "os_remove path fs = (if fs path = None then Inl FileNotFoundError else Inr (fs(path := None)))"

text \<open>The entry \<^verbatim>\<open>f"Fila {index + 2}: {reason}"\<close> of the error list.\<close>

definition fila :: "nat \<Rightarrow> msg \<Rightarrow> msg" where
  "fila index reason = [Lit ''Fila '', Num (index + 2), Lit '': ''] @ reason"

text \<open>
  The loop over \<^verbatim>\<open>enumerate(personas_data)\<close>, from the row of index \<open>index\<close> on. The state
  is the store, \<^verbatim>\<open>inserted_count\<close> and \<^verbatim>\<open>errors\<close>. Every exception of the loop body
  is caught by \<^verbatim>\<open>except Exception\<close> and becomes an entry of \<^verbatim>\<open>errors\<close>.
\<close>

fun process_rows ::
  "env \<Rightarrow> nat \<Rightarrow> row list \<Rightarrow> store \<times> nat \<times> msg list \<Rightarrow> store \<times> nat \<times> msg list" where
  "process_rows e index [] st = st"
| "process_rows e index (persona_data # rest) (db, inserted_count, errors) =
     (case validate_persona_data persona_data of
        Inl ex \<Rightarrow>
          process_rows e (index + 1) rest (db, inserted_count, errors @ [fila index [Str ex]])
      | Inr (persona_data', is_valid, validation_message) \<Rightarrow>
          if \<not> is_valid then
            process_rows e (index + 1) rest
              (db, inserted_count, errors @ [fila index validation_message])
          else
            (let custom_id = new_id e index in
             case set_exn e index of
               Some ex \<Rightarrow>
                 process_rows e (index + 1) rest
                   (db, inserted_count, errors @ [fila index [Str ex]])
             | None \<Rightarrow>
                 process_rows e (index + 1) rest
                   (db(custom_id \<mapsto> persona_data'), inserted_count + 1, errors)))"

text \<open>
  The messages of the handler; an accented letter is written as its two UTF-8 bytes
  (\<^verbatim>\<open>C3 B3\<close> is o acute, \<^verbatim>\<open>C3 BA\<close> is u acute).
\<close>

definition msg_no_file :: msg where
  "msg_no_file = [Lit (''No se encontr'' @ [CHR 0xC3, CHR 0xB3] @ '' el archivo en la solicitud'')]"

definition msg_no_name :: msg where
  "msg_no_name =
     [Lit (''No se seleccion'' @ [CHR 0xC3, CHR 0xB3] @ '' ning'' @ [CHR 0xC3, CHR 0xBA]
           @ ''n archivo'')]"

definition msg_bad_type :: msg where
  "msg_bad_type = [Lit ''Tipo de archivo no permitido. Solo se aceptan archivos CSV'']"

definition server_error :: "pyexn \<Rightarrow> response" where
  "server_error ex = (Message False [Lit ''Error en el servidor: '', Str ex], 500)"

text \<open>
  \<^verbatim>\<open>upload_personas_csv()\<close>, on the file of the request (\<open>None\<close>: the request has no
  part named \<^verbatim>\<open>file\<close>). It returns the response and the world it leaves.
\<close>

definition upload_personas_csv :: "env \<Rightarrow> upload option \<Rightarrow> world \<Rightarrow> response \<times> world" where
  "upload_personas_csv e req w =
     (case req of
        None \<Rightarrow> ((Message False msg_no_file, 400), w)
      | Some file \<Rightarrow>
          if filename file = [] then ((Message False msg_no_name, 400), w)
          else if \<not> allowed_file (filename file) then ((Message False msg_bad_type, 400), w)
          else
            (let file_path = ''uploads/'' @ secure_name e (filename file) in
             case save_exn e of
               Some ex \<Rightarrow> (server_error ex, w)
             | None \<Rightarrow>
                 (let w1 = w\<lparr>files := (files w)(file_path \<mapsto> content file)\<rparr> in
                  case read_csv e (content file) of
                    Inl ex \<Rightarrow>
                      ((Message False [Lit ''Error leyendo el archivo CSV: '', Str ex], 400), w1)
                  | Inr personas_data \<Rightarrow>
                      (case process_rows e 0 personas_data (personas w1, 0, []) of
                         (db, inserted_count, errors) \<Rightarrow>
                           (case os_remove file_path (files w1) of
                              Inl ex \<Rightarrow> (server_error ex, w1\<lparr>personas := db\<rparr>)
                            | Inr fs \<Rightarrow>
                                ((Report True
                                    (if errors \<noteq> []
                                     then [Lit ''Se insertaron '', Num inserted_count,
                                           Lit '' de '', Num (length personas_data),
                                           Lit '' registros'']
                                     else [Lit ''Se insertaron '', Num inserted_count,
                                           Lit '' registros exitosamente''])
                                    inserted_count
                                    (length personas_data)
                                    (if errors \<noteq> [] then Some errors else None),
                                  if inserted_count > 0 then 200 else 400),
                                 \<lparr>files = fs, personas = db\<rparr>))))))"

section \<open>Listing and fetching\<close>

text \<open>
  \<^verbatim>\<open>request.args.get(key, default=d, type=int)\<close>: the default when the parameter is
  absent or \<^verbatim>\<open>int\<close> rejects it.
\<close>

definition args_get :: "string option \<Rightarrow> int \<Rightarrow> int" where
  "args_get arg d =
     (case arg of
        None \<Rightarrow> d
      | Some s \<Rightarrow> (case py_int (VStr s) of Inl ex \<Rightarrow> d | Inr n \<Rightarrow> n))"

definition with_id :: "string \<times> row \<Rightarrow> row" where
  "with_id doc = (snd doc)(''id'' \<mapsto> VStr (fst doc))"

definition persons_error :: "pyexn \<Rightarrow> response" where
  "persons_error ex = (Message False [Lit ''Error getting persons: '', Str ex], 500)"

text \<open>\<^verbatim>\<open>get_persons()\<close>, on the query parameters \<^verbatim>\<open>limit\<close> and \<^verbatim>\<open>page\<close>.\<close>

definition get_persons :: "env \<Rightarrow> string option \<Rightarrow> string option \<Rightarrow> response" where
  "get_persons e limit_arg page_arg =
     (let limit0 = args_get limit_arg 10;
          page = args_get page_arg 1;
          limit = (if limit0 > 10 then 10 else limit0);
          offset = (page - 1) * limit
      in case query_page e offset limit of
           Inl ex \<Rightarrow> persons_error ex
         | Inr docs \<Rightarrow>
             (let persons_list = map with_id docs in
              case stream_all e of
                Inl ex \<Rightarrow> persons_error ex
              | Inr everything \<Rightarrow>
                  (let total_count = int (length everything) in
                   if limit = 0 then persons_error ZeroDivisionError
                   else
                     (Listing True persons_list total_count page limit
                        ((total_count + limit - 1) div limit),
                      200))))"

text \<open>\<^verbatim>\<open>get_person(person_id)\<close>, on the store.\<close>

definition get_person :: "env \<Rightarrow> string \<Rightarrow> store \<Rightarrow> response" where
  "get_person e person_id db =
     (case get_exn e of
        Some ex \<Rightarrow> (Message False [Lit ''Error getting person: '', Str ex], 500)
      | None \<Rightarrow>
          (case db person_id of
             Some d \<Rightarrow> (Person True (with_id (person_id, d)), 200)
           | None \<Rightarrow> (Message False [Lit ''Person not found''], 404)))"

section \<open>Notions of the specification\<close>

text \<open>
  A row violates the rules of the validator when a required field is missing, or the
  coercion of \<^verbatim>\<open>age\<close> to an integer fails, or the coercion of \<^verbatim>\<open>status\<close> to a
  boolean fails.
\<close>

definition violates_rules :: "row \<Rightarrow> bool" where
  "violates_rules r =
     ((\<exists>f \<in> set required_fields. r f = None)
      \<or> (case r ''age'' of None \<Rightarrow> False | Some a \<Rightarrow> isl (py_int a))
      \<or> (case r ''status'' of None \<Rightarrow> False | Some s \<Rightarrow> isl (py_bool s)))"

text \<open>
  The row of index \<open>i\<close> is accepted when the validator declares it valid and its write
  to the store raises nothing; every other row leaves an entry in the error list.
\<close>

definition accepted :: "env \<Rightarrow> nat \<times> row \<Rightarrow> bool" where
  "accepted e ir =
     ((case validate_persona_data (snd ir) of
         Inl ex \<Rightarrow> False
       | Inr (d, is_valid, m) \<Rightarrow> is_valid)
      \<and> set_exn e (fst ir) = None)"

text \<open>The line number an entry of the error list names.\<close>

fun fila_line :: "msg \<Rightarrow> nat option" where
  "fila_line (Lit p # Num n # rest) = (if p = ''Fila '' then Some n else None)"
| "fila_line m = None"

text \<open>The error list of a report; it is empty when the key \<^verbatim>\<open>errors\<close> is absent.\<close>

definition the_errors :: "msg list option \<Rightarrow> msg list" where
  "the_errors es = (case es of None \<Rightarrow> [] | Some l \<Rightarrow> l)"

section \<open>Sample inputs\<close>

text \<open>A row with all ten required fields, with the given age and status.\<close>

definition person_row :: "pyval \<Rightarrow> pyval \<Rightarrow> row" where
  "person_row a s =
     [''name'' \<mapsto> VStr ''Ana'', ''last_name'' \<mapsto> VStr ''Diaz'', ''email'' \<mapsto> VStr ''ana@uni.co'',
      ''age'' \<mapsto> a, ''sex'' \<mapsto> VStr ''F'', ''address'' \<mapsto> VStr ''Calle 1'',
      ''country'' \<mapsto> VStr ''CO'', ''degree'' \<mapsto> VStr ''BSc'', ''university'' \<mapsto> VStr ''UdeA'',
      ''status'' \<mapsto> s]"

text \<open>Identifiers that differ from row to row.\<close>

definition test_id :: "nat \<Rightarrow> string" where
  "test_id i = replicate i (CHR ''f'') @ ''0''"

text \<open>
  An environment in which the file is saved, the parser returns \<open>parsed\<close> and the write
  of row \<open>i\<close> raises \<open>failing i\<close>.
\<close>

definition test_env :: "(pyexn + row list) \<Rightarrow> (nat \<Rightarrow> pyexn option) \<Rightarrow> env" where
  "test_env parsed failing =
     \<lparr>secure_name = (\<lambda>fn. fn), save_exn = None, read_csv = (\<lambda>bytes. parsed),
      new_id = test_id, set_exn = failing,
      query_page = (\<lambda>offset limit. Inr []), stream_all = Inr [],
      get_exn = None\<rparr>"

definition empty_world :: world where
  "empty_world = \<lparr>files = Map.empty, personas = Map.empty\<rparr>"

text \<open>
  Three rows of one file: a row the validator accepts, a row whose age is no number and a
  row without the column \<^verbatim>\<open>email\<close>.
\<close>

definition test_rows :: "row list" where
  "test_rows =
     [person_row (VStr ''34'') (VStr ''true''),
      person_row (VStr ''abc'') (VStr ''true''),
      (person_row (VStr ''20'') (VBool True))(''email'' := None)]"

text \<open>Uploaded files; the parser of the environment decides what their rows are.\<close>

definition test_file :: upload where
  "test_file = Upload ''people.csv'' ''name,last_name,email''"

definition short_file :: upload where
  "short_file = Upload ''people.csv'' ''name''"

definition empty_file :: upload where
  "empty_file = Upload ''people.csv'' []"

text \<open>A store whose write of the first row fails.\<close>

definition failing_first :: "nat \<Rightarrow> pyexn option" where
  "failing_first i = (if i = 0 then Some (ExternalError ''deadline exceeded'') else None)"

text \<open>
  A collection of \<open>n\<close> documents and the environment that lists it: a page is the
  documents from \<open>offset\<close> on, at most \<open>limit\<close> of them.
\<close>

definition docs_of :: "nat \<Rightarrow> (string \<times> row) list" where
  "docs_of n = map (\<lambda>i. (test_id i, person_row (VInt 34) (VBool True))) [0..<n]"

definition listing_env :: "nat \<Rightarrow> env" where
  "listing_env n =
     \<lparr>secure_name = (\<lambda>fn. fn), save_exn = None, read_csv = (\<lambda>bytes. Inr []),
      new_id = test_id, set_exn = (\<lambda>i. None),
      query_page = (\<lambda>offset limit. Inr (take (nat limit) (drop (nat offset) (docs_of n)))),
      stream_all = Inr (docs_of n),
      get_exn = None\<rparr>"

text \<open>
  A row of a file that has a column \<^verbatim>\<open>id\<close> of its own, two valid rows of one file,
  an environment whose generator draws the same identifier for every row, and an
  environment whose read of a document fails.
\<close>

definition row_with_id :: row where
  "row_with_id = (person_row (VInt 34) (VBool True))(''id'' \<mapsto> VStr ''old-id'')"

definition twin_rows :: "row list" where
  "twin_rows = [person_row (VInt 34) (VBool True), person_row (VInt 20) (VBool False)]"

definition same_id_env :: "(pyexn + row list) \<Rightarrow> env" where
  "same_id_env parsed =
     \<lparr>secure_name = (\<lambda>fn. fn), save_exn = None, read_csv = (\<lambda>bytes. parsed),
      new_id = (\<lambda>i. ''6f1c0a9e3b7d425a8c01''), set_exn = (\<lambda>i. None),
      query_page = (\<lambda>offset limit. Inr []), stream_all = Inr [],
      get_exn = None\<rparr>"

definition unread_env :: env where
  "unread_env =
     \<lparr>secure_name = (\<lambda>fn. fn), save_exn = None, read_csv = (\<lambda>bytes. Inr test_rows),
      new_id = test_id, set_exn = (\<lambda>i. None),
      query_page = (\<lambda>offset limit. Inr []), stream_all = Inr [],
      get_exn = Some (ExternalError ''deadline exceeded'')\<rparr>"

section \<open>Properties of the validator\<close>

lemma py_bool_total: "\<exists>b. py_bool v = Inr b"
  by (cases v rule: py_bool.cases) auto

lemma required_present_iff:
  "find (\<lambda>field. data field = None) required_fields = None
     \<longleftrightarrow> (\<forall>f \<in> set required_fields. data f \<noteq> None)"
  by (auto simp: find_None_iff)

lemma age_required: "''age'' \<in> set required_fields"
  by (simp add: required_fields_def)

lemma status_required: "''status'' \<in> set required_fields"
  by (simp add: required_fields_def)

lemma validate_missing:
  assumes "find (\<lambda>field. data field = None) required_fields = Some f"
  shows "validate_persona_data data = Inr (data, False, msg_missing f)"
  using assms by (simp add: validate_persona_data_def)

lemma validate_present:
  assumes "\<forall>f \<in> set required_fields. data f \<noteq> None"
    and "data ''age'' = Some a" and "data ''status'' = Some s"
  shows "validate_persona_data data =
     (case py_int a of
        Inl ex \<Rightarrow> if caught ex then Inr (data, False, msg_types) else Inl ex
      | Inr n \<Rightarrow>
          (case py_bool s of
             Inl ex \<Rightarrow> if caught ex then Inr (data(''age'' \<mapsto> VInt n), False, msg_types) else Inl ex
           | Inr b \<Rightarrow> Inr (data(''age'' \<mapsto> VInt n, ''status'' \<mapsto> VBool b), True, msg_valid)))"
proof -
  have "find (\<lambda>field. data field = None) required_fields = None"
    using assms(1) by (simp add: required_present_iff)
  then show ?thesis
    using assms(2,3) by (simp add: validate_persona_data_def split: sum.splits)
qed

lemma validate_valid:
  assumes "\<forall>f \<in> set required_fields. data f \<noteq> None"
    and "data ''age'' = Some a" and "data ''status'' = Some s"
    and "py_int a = Inr n" and "py_bool s = Inr b"
  shows "validate_persona_data data =
           Inr (data(''age'' \<mapsto> VInt n, ''status'' \<mapsto> VBool b), True, msg_valid)"
  using validate_present [OF assms(1,2,3)] assms(4,5) by simp

lemma validate_rejects_iff:
  "violates_rules r \<longleftrightarrow>
     (case validate_persona_data r of Inl ex \<Rightarrow> True | Inr (d, is_valid, m) \<Rightarrow> \<not> is_valid)"
proof (cases "find (\<lambda>field. r field = None) required_fields")
  case (Some f)
  then have "\<exists>f \<in> set required_fields. r f = None"
    by (auto simp: find_Some_iff)
  then show ?thesis
    using validate_missing [OF Some] by (simp add: violates_rules_def)
next
  case None
  then have pres: "\<forall>f \<in> set required_fields. r f \<noteq> None"
    by (simp add: required_present_iff)
  then obtain a s where a: "r ''age'' = Some a" and s: "r ''status'' = Some s"
    using age_required status_required by blast
  obtain b where b: "py_bool s = Inr b"
    using py_bool_total by blast
  show ?thesis
    using pres a s b validate_present [OF pres a s]
    by (auto simp: violates_rules_def split: sum.splits)
qed

lemma person_row_present: "\<forall>f \<in> set required_fields. person_row a s f \<noteq> None"
  by (simp add: person_row_def required_fields_def)

lemma person_row_age: "person_row a s ''age'' = Some a"
  by (simp add: person_row_def)

lemma person_row_status: "person_row a s ''status'' = Some s"
  by (simp add: person_row_def)

lemma int_of_str_34: "int_of_str ''34'' = Some 34"
  by (simp add: int_of_str_def strip_def is_space_def parse_unsigned_def is_digit_def digit_val_def)

lemma int_of_str_abc: "int_of_str ''abc'' = None"
  by (simp add: int_of_str_def strip_def is_space_def parse_unsigned_def is_digit_def digit_val_def)

section \<open>Properties of the import loop\<close>

lemma fila_line_fila: "fila_line (fila i m) = Some (i + 2)"
  by (simp add: fila_def)

lemma process_rows_step:
  "process_rows e i (r # rest) (db, n, errs) =
     (if accepted e (i, r)
      then process_rows e (Suc i) rest
             (db(new_id e i \<mapsto> fst (projr (validate_persona_data r))), Suc n, errs)
      else process_rows e (Suc i) rest
             (db, n, errs @ [fila i (case validate_persona_data r of
                                      Inl ex \<Rightarrow> [Str ex]
                                    | Inr (d, is_valid, m) \<Rightarrow>
                                        if is_valid then [Str (the (set_exn e i))] else m)]))"
  by (auto simp: accepted_def split: sum.splits option.splits)

lemma process_rows_lines:
  "process_rows e i rows (db, n, errs) = (db', n', errs') \<Longrightarrow>
     map fila_line errs' =
       map fila_line errs
       @ map (\<lambda>ir. Some (fst ir + 2)) (filter (\<lambda>ir. \<not> accepted e ir) (enumerate i rows))"
proof (induction rows arbitrary: i db n errs)
  case Nil
  then show ?case by simp
next
  case (Cons r rest)
  show ?case
  proof (cases "accepted e (i, r)")
    case True
    with Cons.prems have
      "process_rows e (Suc i) rest
         (db(new_id e i \<mapsto> fst (projr (validate_persona_data r))), Suc n, errs) = (db', n', errs')"
      by (simp only: process_rows_step if_True)
    from Cons.IH [OF this] True show ?thesis by simp
  next
    case False
    with Cons.prems obtain m where
      "process_rows e (Suc i) rest (db, n, errs @ [fila i m]) = (db', n', errs')"
      by (simp only: process_rows_step if_False)
    from Cons.IH [OF this] False show ?thesis by (simp add: fila_line_fila)
  qed
qed

lemma process_rows_counts:
  "process_rows e i rows (db, n, errs) = (db', n', errs') \<Longrightarrow>
     n' = n + length (filter (accepted e) (enumerate i rows)) \<and>
     length errs' = length errs + length (filter (\<lambda>ir. \<not> accepted e ir) (enumerate i rows))"
proof (induction rows arbitrary: i db n errs)
  case Nil
  then show ?case by simp
next
  case (Cons r rest)
  show ?case
  proof (cases "accepted e (i, r)")
    case True
    with Cons.prems have
      "process_rows e (Suc i) rest
         (db(new_id e i \<mapsto> fst (projr (validate_persona_data r))), Suc n, errs) = (db', n', errs')"
      by (simp only: process_rows_step if_True)
    from Cons.IH [OF this] True show ?thesis by simp
  next
    case False
    with Cons.prems obtain m where
      "process_rows e (Suc i) rest (db, n, errs @ [fila i m]) = (db', n', errs')"
      by (simp only: process_rows_step if_False)
    from Cons.IH [OF this] False show ?thesis by simp
  qed
qed

lemma enumerate_lines_sorted:
  "sorted_wrt (<) (map (\<lambda>ir. fst ir + 2) (filter P (enumerate i rows)))"
proof -
  have "sorted_wrt (<) (map fst (enumerate i rows))"
    by (simp add: strict_sorted_iff [symmetric])
  then have "sorted_wrt (\<lambda>a b. fst a < fst b) (enumerate i rows)"
    by (simp only: sorted_wrt_map)
  then have "sorted_wrt (\<lambda>a b. fst a < fst b) (filter P (enumerate i rows))"
    by (rule sorted_wrt_filter)
  then show ?thesis
    by (simp add: sorted_wrt_map)
qed

lemma upload_completes:
  assumes "filename file \<noteq> []" and "allowed_file (filename file)" and "save_exn e = None"
    and "read_csv e (content file) = Inr rows"
    and "process_rows e 0 rows (personas w, 0, []) = (db, n, errs)"
  shows "upload_personas_csv e (Some file) w =
     ((Report True
         (if errs \<noteq> []
          then [Lit ''Se insertaron '', Num n, Lit '' de '', Num (length rows), Lit '' registros'']
          else [Lit ''Se insertaron '', Num n, Lit '' registros exitosamente''])
         n (length rows) (if errs \<noteq> [] then Some errs else None),
       if n > 0 then 200 else 400),
      \<lparr>files = (files w)(''uploads/'' @ secure_name e (filename file) := None), personas = db\<rparr>)"
  using assms by (simp add: upload_personas_csv_def os_remove_def Let_def)

lemma the_errors_if: "the_errors (if errs \<noteq> [] then Some errs else None) = errs"
  by (simp add: the_errors_def)

lemma accepted_iff_not_violates:
  assumes "\<forall>j < length rows. set_exn e (i + j) = None" and "ir \<in> set (enumerate i rows)"
  shows "accepted e ir = (\<not> violates_rules (snd ir))"
proof -
  from assms(2) have "i \<le> fst ir" "fst ir < i + length rows"
    by (auto simp: in_set_enumerate_eq)
  then have "fst ir - i < length rows" "i + (fst ir - i) = fst ir"
    by arith+
  with assms(1) have "set_exn e (fst ir) = None"
    by metis
  then show ?thesis
    by (simp add: accepted_def validate_rejects_iff split: sum.splits)
qed

lemma length_filter_snd_enumerate:
  "length (filter (\<lambda>ir. P (snd ir)) (enumerate i rows)) = length (filter P rows)"
proof -
  have "map snd (filter (P \<circ> snd) (enumerate i rows)) = filter P (map snd (enumerate i rows))"
    by (rule filter_map [symmetric])
  then have "length (filter (P \<circ> snd) (enumerate i rows)) = length (filter P rows)"
    by (metis length_map map_snd_enumerate)
  then show ?thesis
    by (simp add: comp_def)
qed

lemma process_rows_counts_ok:
  assumes "\<forall>j < length rows. set_exn e (i + j) = None"
    and "process_rows e i rows (db, n, errs) = (db', n', errs')"
  shows "n' = n + length (filter (\<lambda>r. \<not> violates_rules r) rows)"
    and "length errs' = length errs + length (filter violates_rules rows)"
proof -
  have a: "filter (accepted e) (enumerate i rows)
             = filter (\<lambda>ir. \<not> violates_rules (snd ir)) (enumerate i rows)"
    by (rule filter_cong [OF refl]) (rule accepted_iff_not_violates [OF assms(1)])
  have b: "filter (\<lambda>ir. \<not> accepted e ir) (enumerate i rows)
             = filter (\<lambda>ir. violates_rules (snd ir)) (enumerate i rows)"
    by (rule filter_cong [OF refl]) (simp add: accepted_iff_not_violates [OF assms(1)])
  from process_rows_counts [OF assms(2)]
  show "n' = n + length (filter (\<lambda>r. \<not> violates_rules r) rows)"
    and "length errs' = length errs + length (filter violates_rules rows)"
    by (simp_all add: a b length_filter_snd_enumerate [of violates_rules]
          length_filter_snd_enumerate [of "\<lambda>r. \<not> violates_rules r"])
qed

lemma validate_valid_shape:
  assumes "validate_persona_data r = Inr (d, True, m)"
  shows "\<exists>a s n b. r ''age'' = Some a \<and> py_int a = Inr n \<and> r ''status'' = Some s
           \<and> py_bool s = Inr b \<and> d = r(''age'' \<mapsto> VInt n, ''status'' \<mapsto> VBool b)"
  using assms
  by (auto simp: validate_persona_data_def Let_def
           split: option.splits sum.splits if_splits)

lemma process_rows_untouched:
  "\<forall>l < length rows. new_id e (i + l) \<noteq> k \<Longrightarrow>
   process_rows e i rows (db, n, errs) = (db', n', errs') \<Longrightarrow> db' k = db k"
proof (induction rows arbitrary: i db n errs)
  case Nil
  then show ?case by simp
next
  case (Cons r rest)
  from Cons.prems(1) have here: "new_id e i \<noteq> k"
    by force
  from Cons.prems(1) have later: "\<forall>l < length rest. new_id e (Suc i + l) \<noteq> k"
    by force
  show ?case
  proof (cases "accepted e (i, r)")
    case True
    with Cons.prems(2) have
      "process_rows e (Suc i) rest
         (db(new_id e i \<mapsto> fst (projr (validate_persona_data r))), Suc n, errs) = (db', n', errs')"
      by (simp only: process_rows_step if_True)
    from Cons.IH [OF later this] here show ?thesis by simp
  next
    case False
    with Cons.prems(2) obtain m where
      "process_rows e (Suc i) rest (db, n, errs @ [fila i m]) = (db', n', errs')"
      by (simp only: process_rows_step if_False)
    from Cons.IH [OF later this] show ?thesis .
  qed
qed

lemma process_rows_stored:
  "j < length rows \<Longrightarrow> accepted e (i + j, rows ! j) \<Longrightarrow>
   \<forall>l < length rows. l \<noteq> j \<longrightarrow> new_id e (i + l) \<noteq> new_id e (i + j) \<Longrightarrow>
   process_rows e i rows (db, n, errs) = (db', n', errs') \<Longrightarrow>
   db' (new_id e (i + j)) = Some (fst (projr (validate_persona_data (rows ! j))))"
proof (induction rows arbitrary: i j db n errs)
  case Nil
  then show ?case by simp
next
  case (Cons r rest)
  show ?case
  proof (cases j)
    case 0
    with Cons.prems(2) have acc: "accepted e (i, r)"
      by simp
    from Cons.prems(3) 0 have later: "\<forall>l < length rest. new_id e (Suc i + l) \<noteq> new_id e i"
      by force
    from acc Cons.prems(4) have
      "process_rows e (Suc i) rest
         (db(new_id e i \<mapsto> fst (projr (validate_persona_data r))), Suc n, errs) = (db', n', errs')"
      by (simp only: process_rows_step if_True)
    from process_rows_untouched [OF later this] 0 show ?thesis by simp
  next
    case (Suc j')
    with Cons.prems(1) have j': "j' < length rest"
      by simp
    from Cons.prems(2) Suc have acc: "accepted e (Suc i + j', rest ! j')"
      by simp
    have others: "\<forall>l < length rest. l \<noteq> j' \<longrightarrow> new_id e (Suc i + l) \<noteq> new_id e (Suc i + j')"
    proof (intro allI impI)
      fix l assume "l < length rest" "l \<noteq> j'"
      then have "Suc l < length (r # rest)" "Suc l \<noteq> j"
        using Suc by simp_all
      with Cons.prems(3) have "new_id e (i + Suc l) \<noteq> new_id e (i + j)"
        by blast
      then show "new_id e (Suc i + l) \<noteq> new_id e (Suc i + j')"
        using Suc by simp
    qed
    obtain db1 n1 errs1 where
      "process_rows e (Suc i) rest (db1, n1, errs1) = (db', n', errs')"
      using Cons.prems(4) by (simp only: process_rows_step split: if_splits)
    from Cons.IH [OF j' acc others this] Suc show ?thesis by simp
  qed
qed

section \<open>Properties of the listing\<close>



section \<open>Properties of the sample inputs\<close>

lemma allowed_people: "allowed_file ''people.csv''"
  by (simp add: allowed_file_def extension_def lower_def)

lemma test_file_sel: "filename test_file = ''people.csv''" "content test_file = ''name,last_name,email''"
  by (simp_all add: test_file_def)

lemma short_file_sel: "filename short_file = ''people.csv''" "content short_file = ''name''"
  by (simp_all add: short_file_def)

lemma empty_file_sel: "filename empty_file = ''people.csv''" "content empty_file = []"
  by (simp_all add: empty_file_def)

lemma test_env_sel:
  "save_exn (test_env parsed failing) = None"
  "read_csv (test_env parsed failing) bytes = parsed"
  "set_exn (test_env parsed failing) = failing"
  "new_id (test_env parsed failing) = test_id"
  "secure_name (test_env parsed failing) fn = fn"
  "get_exn (test_env parsed failing) = None"
  by (simp_all add: test_env_def)

lemma test_id_inj: "test_id i = test_id j \<longleftrightarrow> i = j"
proof
  assume "test_id i = test_id j"
  then have "length (test_id i) = length (test_id j)"
    by simp
  then show "i = j"
    by (simp add: test_id_def)
qed simp

lemma violates_person_row: "violates_rules (person_row a s) = isl (py_int a)"
proof -
  obtain b where "py_bool s = Inr b"
    using py_bool_total by blast
  then show ?thesis
    using person_row_present [of a s]
    by (auto simp: violates_rules_def person_row_age person_row_status)
qed

lemma violates_missing: "r f = None \<Longrightarrow> f \<in> set required_fields \<Longrightarrow> violates_rules r"
  by (auto simp: violates_rules_def)

lemma test_rows_violations: "filter violates_rules test_rows = tl test_rows"
proof -
  have "\<not> violates_rules (person_row (VStr ''34'') (VStr ''true''))"
    by (simp add: violates_person_row int_of_str_34)
  moreover have "violates_rules (person_row (VStr ''abc'') (VStr ''true''))"
    by (simp add: violates_person_row int_of_str_abc)
  moreover have "violates_rules ((person_row (VStr ''20'') (VBool True))(''email'' := None))"
    by (rule violates_missing [of _ "''email''"]) (simp_all add: required_fields_def)
  ultimately show ?thesis
    by (simp add: test_rows_def)
qed

lemma accepted_test_env:
  "accepted (test_env parsed failing) ir = (\<not> violates_rules (snd ir) \<and> failing (fst ir) = None)"
  by (simp add: accepted_def validate_rejects_iff test_env_sel split: sum.splits)

lemma test_rows_rejected:
  "filter (\<lambda>ir. \<not> accepted (test_env parsed failing_first) ir) (enumerate 0 test_rows)
     = enumerate 0 test_rows"
proof -
  have "violates_rules (person_row (VStr ''abc'') (VStr ''true''))"
    by (simp add: violates_person_row int_of_str_abc)
  moreover have "violates_rules ((person_row (VStr ''20'') (VBool True))(''email'' := None))"
    by (rule violates_missing [of _ "''email''"]) (simp_all add: required_fields_def)
  ultimately show ?thesis
    by (simp add: test_rows_def accepted_test_env failing_first_def)
qed

lemma listing_env_sel:
  "query_page (listing_env n) offset limit = Inr (take (nat limit) (drop (nat offset) (docs_of n)))"
  "stream_all (listing_env n) = Inr (docs_of n)"
  by (simp_all add: listing_env_def)



lemma int_of_str_0: "int_of_str ''0'' = Some 0"
  by (simp add: int_of_str_def strip_def is_space_def parse_unsigned_def is_digit_def digit_val_def)


lemma same_id_env_sel:
  "save_exn (same_id_env parsed) = None"
  "read_csv (same_id_env parsed) bytes = parsed"
  "set_exn (same_id_env parsed) i = None"
  "new_id (same_id_env parsed) i = ''6f1c0a9e3b7d425a8c01''"
  "get_exn (same_id_env parsed) = None"
  by (simp_all add: same_id_env_def)

lemma validate_twin_rows:
  "validate_persona_data (person_row (VInt 34) (VBool True))
     = Inr ((person_row (VInt 34) (VBool True))(''age'' \<mapsto> VInt 34, ''status'' \<mapsto> VBool True),
            True, msg_valid)"
  "validate_persona_data (person_row (VInt 20) (VBool False))
     = Inr ((person_row (VInt 20) (VBool False))(''age'' \<mapsto> VInt 20, ''status'' \<mapsto> VBool False),
            True, msg_valid)"
  by (rule validate_valid [OF person_row_present person_row_age person_row_status]; simp)+

lemma validate_row_with_id:
  "validate_persona_data row_with_id
     = Inr (row_with_id(''age'' \<mapsto> VInt 34, ''status'' \<mapsto> VBool True), True, msg_valid)"
proof (rule validate_valid)
  show "\<forall>f \<in> set required_fields. row_with_id f \<noteq> None"
    by (simp add: row_with_id_def person_row_def required_fields_def)
  show "row_with_id ''age'' = Some (VInt 34)"
    by (simp add: row_with_id_def person_row_def)
  show "row_with_id ''status'' = Some (VBool True)"
    by (simp add: row_with_id_def person_row_def)
  show "py_int (VInt 34) = Inr 34"
    by simp
  show "py_bool (VBool True) = Inr True"
    by simp
qed

lemma twin_rows_run:
  "process_rows (same_id_env (Inr twin_rows)) 0 twin_rows (personas empty_world, 0, [])
     = ([''6f1c0a9e3b7d425a8c01'' \<mapsto>
           (person_row (VInt 20) (VBool False))(''age'' \<mapsto> VInt 20, ''status'' \<mapsto> VBool False)],
        2, [])"
  by (simp add: twin_rows_def validate_twin_rows same_id_env_sel empty_world_def Let_def)

lemma row_with_id_run:
  "process_rows (test_env (Inr [row_with_id]) (\<lambda>i. None)) 0 [row_with_id]
       (personas empty_world, 0, [])
     = ([test_id 0 \<mapsto> row_with_id(''age'' \<mapsto> VInt 34, ''status'' \<mapsto> VBool True)], 1, [])"
  by (simp add: validate_row_with_id test_env_sel empty_world_def Let_def)

section \<open>Claims about the validator\<close>

text \<open>
  Claim C1, as the code has it. For a row with the ten required fields whose age coerces
  to an integer, the validator replaces the status by its truthiness: a string becomes
  true exactly when it is not empty (so \<^verbatim>\<open>"false"\<close> and \<^verbatim>\<open>"0"\<close> become true and only
  \<^verbatim>\<open>""\<close> becomes false), and a boolean is kept as it is.
\<close>

theorem status_coercion_truthiness:
  assumes "\<forall>f \<in> set required_fields. data f \<noteq> None"
    and "data ''age'' = Some a" and "py_int a = Inr n"
  shows "(\<forall>t. data ''status'' = Some (VStr t) \<longrightarrow>
            validate_persona_data data =
              Inr (data(''age'' \<mapsto> VInt n, ''status'' \<mapsto> VBool (t \<noteq> [])), True, msg_valid))
       \<and> (\<forall>b. data ''status'' = Some (VBool b) \<longrightarrow>
            validate_persona_data data =
              Inr (data(''age'' \<mapsto> VInt n, ''status'' \<mapsto> VBool b), True, msg_valid))"
proof (intro conjI allI impI)
  fix t assume s: "data ''status'' = Some (VStr t)"
  show "validate_persona_data data =
      Inr (data(''age'' \<mapsto> VInt n, ''status'' \<mapsto> VBool (t \<noteq> [])), True, msg_valid)"
    by (rule validate_valid [OF assms(1,2) s assms(3)]) simp
next
  fix b assume s: "data ''status'' = Some (VBool b)"
  show "validate_persona_data data =
      Inr (data(''age'' \<mapsto> VInt n, ''status'' \<mapsto> VBool b), True, msg_valid)"
    by (rule validate_valid [OF assms(1,2) s assms(3)]) simp
qed

text \<open>The statement at the statuses \<^verbatim>\<open>""\<close>, \<^verbatim>\<open>"yes"\<close> and \<^verbatim>\<open>False\<close>.\<close>

theorem status_coercion_truthiness_witness:
  "validate_persona_data (person_row (VStr ''34'') (VStr '''')) =
     Inr ((person_row (VStr ''34'') (VStr ''''))(''age'' \<mapsto> VInt 34, ''status'' \<mapsto> VBool False),
          True, msg_valid)
   \<and> validate_persona_data (person_row (VStr ''34'') (VStr ''yes'')) =
     Inr ((person_row (VStr ''34'') (VStr ''yes''))(''age'' \<mapsto> VInt 34, ''status'' \<mapsto> VBool True),
          True, msg_valid)
   \<and> validate_persona_data (person_row (VStr ''34'') (VBool False)) =
     Inr ((person_row (VStr ''34'') (VBool False))(''age'' \<mapsto> VInt 34, ''status'' \<mapsto> VBool False),
          True, msg_valid)"
proof -
  have age: "py_int (VStr ''34'') = Inr 34"
    by (simp add: int_of_str_34)
  note t = status_coercion_truthiness [OF person_row_present person_row_age age]
  note str = t [THEN conjunct1, rule_format, OF person_row_status]
  note bool = t [THEN conjunct2, rule_format, OF person_row_status]
  show ?thesis
    using str [of "''''"] str [of "''yes''"] bool [of False] by simp
qed

text \<open>
  Claim C1 as the specification words it asks that the texts \<^verbatim>\<open>"false"\<close> and
  \<^verbatim>\<open>"0"\<close> become false. The validator turns both into true.
\<close>

theorem status_false_token_counterexample:
  "validate_persona_data (person_row (VStr ''34'') (VStr ''false'')) =
     Inr ((person_row (VStr ''34'') (VStr ''false''))(''age'' \<mapsto> VInt 34, ''status'' \<mapsto> VBool True),
          True, msg_valid)
   \<and> validate_persona_data (person_row (VStr ''34'') (VStr ''0'')) =
     Inr ((person_row (VStr ''34'') (VStr ''0''))(''age'' \<mapsto> VInt 34, ''status'' \<mapsto> VBool True),
          True, msg_valid)"
proof -
  have age: "py_int (VStr ''34'') = Inr 34"
    by (simp add: int_of_str_34)
  have "validate_persona_data (person_row (VStr ''34'') (VStr ''false'')) =
     Inr ((person_row (VStr ''34'') (VStr ''false''))(''age'' \<mapsto> VInt 34,
            ''status'' \<mapsto> VBool (''false'' \<noteq> [])), True, msg_valid)"
    by (rule validate_valid [OF person_row_present person_row_age person_row_status age]) simp
  moreover have "validate_persona_data (person_row (VStr ''34'') (VStr ''0'')) =
     Inr ((person_row (VStr ''34'') (VStr ''0''))(''age'' \<mapsto> VInt 34,
            ''status'' \<mapsto> VBool (''0'' \<noteq> [])), True, msg_valid)"
    by (rule validate_valid [OF person_row_present person_row_age person_row_status age]) simp
  ultimately show ?thesis by simp
qed

text \<open>
  Claim C5. The validator looks for the ten required fields in the order name, last_name,
  email, age, sex, address, country, degree, university, status, and rejects the row with
  the message \<^verbatim>\<open>Campo requerido faltante: \<close> followed by the name of the first field that
  is missing, whatever the other values are; so a missing field is reported before any type
  is checked. When all fields are present, the age \<^verbatim>\<open>"34"\<close> becomes the integer 34 and
  the row is declared valid, and the age \<^verbatim>\<open>"abc"\<close> rejects the row with the message
  about the types of \<^verbatim>\<open>age\<close> and \<^verbatim>\<open>status\<close>, which is another text than the one for
  a missing field.
\<close>

theorem validator_order_and_age:
  "required_fields =
     [''name'', ''last_name'', ''email'', ''age'', ''sex'',
      ''address'', ''country'', ''degree'', ''university'', ''status'']
   \<and> (\<forall>i < length required_fields.
         data (required_fields ! i) = None \<and> (\<forall>j < i. data (required_fields ! j) \<noteq> None)
         \<longrightarrow> validate_persona_data data
               = Inr (data, False, [Lit ''Campo requerido faltante: '', Lit (required_fields ! i)]))
   \<and> ((\<forall>f \<in> set required_fields. data f \<noteq> None) \<and> data ''age'' = Some (VStr ''34'')
        \<longrightarrow> (\<exists>d. validate_persona_data data
                   = Inr (d, True, [Lit (''Datos v'' @ [CHR 0xC3, CHR 0xA1] @ ''lidos'')])
                 \<and> d ''age'' = Some (VInt 34)))
   \<and> ((\<forall>f \<in> set required_fields. data f \<noteq> None) \<and> data ''age'' = Some (VStr ''abc'')
        \<longrightarrow> validate_persona_data data
              = Inr (data, False,
                  [Lit (''Los campos '' @ [CHR 0x27] @ ''age'' @ [CHR 0x27] @ '' y '' @ [CHR 0x27]
                  @ ''status'' @ [CHR 0x27] @ '' deben ser num'' @ [CHR 0xC3, CHR 0xA9]
                  @ ''ricos/booleanos'')]))"
proof (intro conjI allI impI)
  show "required_fields =
     [''name'', ''last_name'', ''email'', ''age'', ''sex'',
      ''address'', ''country'', ''degree'', ''university'', ''status'']"
    by (fact required_fields_def)
next
  fix i
  assume "i < length required_fields"
    and "data (required_fields ! i) = None \<and> (\<forall>j < i. data (required_fields ! j) \<noteq> None)"
  then have "find (\<lambda>field. data field = None) required_fields = Some (required_fields ! i)"
    unfolding find_Some_iff by blast
  then have "validate_persona_data data = Inr (data, False, msg_missing (required_fields ! i))"
    by (rule validate_missing)
  then show "validate_persona_data data
               = Inr (data, False, [Lit ''Campo requerido faltante: '', Lit (required_fields ! i)])"
    by (simp add: msg_missing_def)
next
  assume h: "(\<forall>f \<in> set required_fields. data f \<noteq> None) \<and> data ''age'' = Some (VStr ''34'')"
  then obtain s where s: "data ''status'' = Some s"
    using status_required by blast
  obtain b where b: "py_bool s = Inr b"
    using py_bool_total by blast
  from h have p: "\<forall>f \<in> set required_fields. data f \<noteq> None"
    and a: "data ''age'' = Some (VStr ''34'')"
    by simp_all
  have i: "py_int (VStr ''34'') = Inr 34"
    by (simp add: int_of_str_34)
  have "validate_persona_data data =
          Inr (data(''age'' \<mapsto> VInt 34, ''status'' \<mapsto> VBool b), True, msg_valid)"
    by (rule validate_valid [OF p a s i b])
  then show "\<exists>d. validate_persona_data data
                   = Inr (d, True, [Lit (''Datos v'' @ [CHR 0xC3, CHR 0xA1] @ ''lidos'')])
                 \<and> d ''age'' = Some (VInt 34)"
    by (simp add: msg_valid_def)
next
  assume h: "(\<forall>f \<in> set required_fields. data f \<noteq> None) \<and> data ''age'' = Some (VStr ''abc'')"
  then obtain s where s: "data ''status'' = Some s"
    using status_required by blast
  from h have p: "\<forall>f \<in> set required_fields. data f \<noteq> None" and a: "data ''age'' = Some (VStr ''abc'')"
    by simp_all
  show "validate_persona_data data
              = Inr (data, False,
                  [Lit (''Los campos '' @ [CHR 0x27] @ ''age'' @ [CHR 0x27] @ '' y '' @ [CHR 0x27]
                  @ ''status'' @ [CHR 0x27] @ '' deben ser num'' @ [CHR 0xC3, CHR 0xA9]
                  @ ''ricos/booleanos'')])"
    using validate_present [OF p a s] by (simp add: int_of_str_abc caught_def msg_types_def)
qed

text \<open>
  The statement at a row that lacks \<^verbatim>\<open>email\<close> and has the age \<^verbatim>\<open>"abc"\<close>, at a row
  with the age \<^verbatim>\<open>"34"\<close> and at a row with the age \<^verbatim>\<open>"abc"\<close>.
\<close>

theorem validator_order_and_age_witness:
  "validate_persona_data ((person_row (VStr ''abc'') (VStr ''true''))(''email'' := None))
     = Inr ((person_row (VStr ''abc'') (VStr ''true''))(''email'' := None), False,
            [Lit ''Campo requerido faltante: '', Lit ''email''])
   \<and> (\<exists>d. validate_persona_data (person_row (VStr ''34'') (VStr ''true''))
            = Inr (d, True, [Lit (''Datos v'' @ [CHR 0xC3, CHR 0xA1] @ ''lidos'')])
          \<and> d ''age'' = Some (VInt 34))
   \<and> validate_persona_data (person_row (VStr ''abc'') (VStr ''true''))
     = Inr (person_row (VStr ''abc'') (VStr ''true''), False,
            [Lit (''Los campos '' @ [CHR 0x27] @ ''age'' @ [CHR 0x27] @ '' y '' @ [CHR 0x27]
                  @ ''status'' @ [CHR 0x27] @ '' deben ser num'' @ [CHR 0xC3, CHR 0xA9]
                  @ ''ricos/booleanos'')])"
proof -
  let ?r = "(person_row (VStr ''abc'') (VStr ''true''))(''email'' := None)"
  have len: "(2::nat) < length required_fields"
    by (simp add: required_fields_def)
  have nth: "required_fields ! 2 = ''email''"
    by (simp add: required_fields_def)
  have first: "?r (required_fields ! 2) = None \<and> (\<forall>j < 2. ?r (required_fields ! j) \<noteq> None)"
    by (simp add: required_fields_def person_row_def numeral_2_eq_2 All_less_Suc)
  have pa: "(\<forall>f \<in> set required_fields. person_row (VStr ''34'') (VStr ''true'') f \<noteq> None)
      \<and> person_row (VStr ''34'') (VStr ''true'') ''age'' = Some (VStr ''34'')"
    using person_row_present person_row_age by (rule conjI)
  have pb: "(\<forall>f \<in> set required_fields. person_row (VStr ''abc'') (VStr ''true'') f \<noteq> None)
      \<and> person_row (VStr ''abc'') (VStr ''true'') ''age'' = Some (VStr ''abc'')"
    using person_row_present person_row_age by (rule conjI)
  have one: "validate_persona_data ?r
               = Inr (?r, False, [Lit ''Campo requerido faltante: '', Lit ''email''])"
    using validator_order_and_age [of ?r, THEN conjunct2, THEN conjunct1, rule_format, OF len first]
    by (simp only: nth)
  have two: "\<exists>d. validate_persona_data (person_row (VStr ''34'') (VStr ''true''))
            = Inr (d, True, [Lit (''Datos v'' @ [CHR 0xC3, CHR 0xA1] @ ''lidos'')])
          \<and> d ''age'' = Some (VInt 34)"
    by (rule validator_order_and_age [THEN conjunct2, THEN conjunct2, THEN conjunct1, THEN mp, OF pa])
  have three: "validate_persona_data (person_row (VStr ''abc'') (VStr ''true''))
     = Inr (person_row (VStr ''abc'') (VStr ''true''), False,
            [Lit (''Los campos '' @ [CHR 0x27] @ ''age'' @ [CHR 0x27] @ '' y '' @ [CHR 0x27]
                  @ ''status'' @ [CHR 0x27] @ '' deben ser num'' @ [CHR 0xC3, CHR 0xA9]
                  @ ''ricos/booleanos'')])"
    by (rule validator_order_and_age [THEN conjunct2, THEN conjunct2, THEN conjunct2, THEN mp, OF pb])
  from one two three show ?thesis by (intro conjI)
qed

text \<open>
  Claim C10. A row with the ten required fields whose age coerces to an integer is
  declared valid whatever its status is: the coercion of the status to a boolean raises
  for no value, so the status never leads to the rejection for the types.
\<close>

theorem valid_whatever_status:
  assumes "\<forall>f \<in> set required_fields. data f \<noteq> None"
    and "data ''age'' = Some a" and "py_int a = Inr n"
  shows "\<exists>s b. data ''status'' = Some s \<and> py_bool s = Inr b
           \<and> validate_persona_data data =
               Inr (data(''age'' \<mapsto> VInt n, ''status'' \<mapsto> VBool b), True, msg_valid)"
proof -
  obtain s where s: "data ''status'' = Some s"
    using assms(1) status_required by blast
  obtain b where b: "py_bool s = Inr b"
    using py_bool_total by blast
  show ?thesis
    using s b validate_valid [OF assms(1,2) s assms(3) b] by blast
qed

text \<open>The statement at a row whose status is the text \<^verbatim>\<open>"not a boolean"\<close>.\<close>

theorem valid_whatever_status_witness:
  "\<exists>s b. person_row (VStr ''34'') (VStr ''not a boolean'') ''status'' = Some s \<and> py_bool s = Inr b \<and>
     validate_persona_data (person_row (VStr ''34'') (VStr ''not a boolean'')) =
         Inr ((person_row (VStr ''34'') (VStr ''not a boolean''))
                (''age'' \<mapsto> VInt 34, ''status'' \<mapsto> VBool b), True, msg_valid)"
proof -
  have age: "py_int (VStr ''34'') = Inr 34"
    by (simp add: int_of_str_34)
  show ?thesis
    by (rule valid_whatever_status [OF person_row_present person_row_age age])
qed

section \<open>Claims about the import\<close>

text \<open>
  Claim C3. When the file is accepted and parsed into the rows \<open>rows\<close> and every write
  to the store succeeds, the import completes with a report in which the number of
  inserted rows plus the number of entries of the error list is the number of rows, and the
  number of entries of the error list is the number of rows that violate the rules of the
  validator.
\<close>

theorem import_counts:
  assumes "filename file \<noteq> []" and "allowed_file (filename file)" and "save_exn e = None"
    and "read_csv e (content file) = Inr rows"
    and "\<forall>i < length rows. set_exn e i = None"
  shows "\<exists>m n es st w'.
           upload_personas_csv e (Some file) w = ((Report True m n (length rows) es, st), w')
         \<and> n + length (the_errors es) = length rows
         \<and> length (the_errors es) = length (filter violates_rules rows)"
proof -
  obtain db n errs where run: "process_rows e 0 rows (personas w, 0, []) = (db, n, errs)"
    by (cases "process_rows e 0 rows (personas w, 0, [])") auto
  from assms(5) have ok: "\<forall>j < length rows. set_exn e (0 + j) = None"
    by simp
  have n: "n = length (filter (\<lambda>r. \<not> violates_rules r) rows)"
    and k: "length errs = length (filter violates_rules rows)"
    using process_rows_counts_ok [OF ok run] by simp_all
  have "n + length errs = length rows"
    unfolding n k by (simp add: add.commute sum_length_filter_compl)
  with k show ?thesis
    using upload_completes [OF assms(1-4) run] the_errors_if [of errs] by metis
qed

text \<open>The statement at the three sample rows, two of which violate the rules.\<close>

theorem import_counts_witness:
  "\<exists>m n es st w'.
      upload_personas_csv (test_env (Inr test_rows) (\<lambda>i. None)) (Some test_file) empty_world
        = ((Report True m n 3 es, st), w')
    \<and> n + length (the_errors es) = 3 \<and> length (the_errors es) = 2"
proof -
  have name: "filename test_file \<noteq> []" and ext: "allowed_file (filename test_file)"
    by (simp_all add: test_file_sel allowed_people)
  have ok: "\<forall>i < length test_rows. set_exn (test_env (Inr test_rows) (\<lambda>i. None)) i = None"
    by (simp add: test_env_sel)
  have len: "length test_rows = 3" "length (tl test_rows) = 2"
    by (simp_all add: test_rows_def)
  show ?thesis
    using import_counts [OF name ext test_env_sel(1) test_env_sel(2) ok, of empty_world]
    by (simp only: test_rows_violations len)
qed

text \<open>
  Claim C4. When an import completes, the entries of its error list are, in the order of
  the file, those of the rows that are not accepted; the entry of the row of index \<open>i\<close>
  names the line \<open>i + 2\<close>, and the line numbers increase strictly along the list.
\<close>

theorem rejection_lines:
  assumes "filename file \<noteq> []" and "allowed_file (filename file)" and "save_exn e = None"
    and "read_csv e (content file) = Inr rows"
  shows "\<exists>m n es st w'.
           upload_personas_csv e (Some file) w = ((Report True m n (length rows) es, st), w')
         \<and> map fila_line (the_errors es)
             = map (\<lambda>ir. Some (fst ir + 2)) (filter (\<lambda>ir. \<not> accepted e ir) (enumerate 0 rows))
         \<and> sorted_wrt (<)
             (map (\<lambda>ir. fst ir + 2) (filter (\<lambda>ir. \<not> accepted e ir) (enumerate 0 rows)))"
proof -
  obtain db n errs where run: "process_rows e 0 rows (personas w, 0, []) = (db, n, errs)"
    by (cases "process_rows e 0 rows (personas w, 0, [])") auto
  have "map fila_line errs
          = map (\<lambda>ir. Some (fst ir + 2)) (filter (\<lambda>ir. \<not> accepted e ir) (enumerate 0 rows))"
    using process_rows_lines [OF run] by simp
  then show ?thesis
    using upload_completes [OF assms run] the_errors_if [of errs] enumerate_lines_sorted
    by metis
qed

text \<open>
  The statement at the three sample rows when the write of the first row fails: the
  entries name the lines 2, 3 and 4.
\<close>

theorem rejection_lines_witness:
  "\<exists>m n es st w'.
      upload_personas_csv (test_env (Inr test_rows) failing_first) (Some test_file) empty_world
        = ((Report True m n 3 es, st), w')
    \<and> map fila_line (the_errors es) = [Some 2, Some 3, Some 4]
    \<and> sorted_wrt (<) [2, 3, 4 :: nat]"
proof -
  have name: "filename test_file \<noteq> []" and ext: "allowed_file (filename test_file)"
    by (simp_all add: test_file_sel allowed_people)
  have len: "length test_rows = 3"
    by (simp add: test_rows_def)
  have lines: "map (\<lambda>ir. Some (fst ir + 2)) (enumerate 0 test_rows) = [Some 2, Some 3, Some 4]"
    "map (\<lambda>ir. fst ir + 2) (enumerate 0 test_rows) = [2, 3, 4]"
    by (simp_all add: test_rows_def)
  show ?thesis
    using rejection_lines [OF name ext test_env_sel(1) test_env_sel(2), of test_rows failing_first empty_world]
    by (simp only: test_rows_rejected len lines)
qed

text \<open>
  Claim C8, as the code has it. Let an import complete, let the row of index \<open>i\<close> be
  valid with the coerced dictionary \<open>record\<close>, let its write succeed, let no other row of
  the import draw the same identifier and let the read of the store succeed. Then fetching
  the identifier drawn for the row answers 200 with a document that carries the identifier
  under \<^verbatim>\<open>id\<close> and equals \<open>record\<close> at every other key, where \<open>record\<close> is the
  submitted row with the age replaced by its integer and the status by its boolean.
\<close>

theorem import_then_fetch:
  assumes "filename file \<noteq> []" and "allowed_file (filename file)" and "save_exn e = None"
    and "read_csv e (content file) = Inr rows"
    and "upload_personas_csv e (Some file) w = (resp, w')"
    and "i < length rows"
    and "validate_persona_data (rows ! i) = Inr (record, True, m)"
    and "set_exn e i = None"
    and "\<forall>j < length rows. j \<noteq> i \<longrightarrow> new_id e j \<noteq> new_id e i"
    and "get_exn e = None"
  shows "\<exists>d. get_person e (new_id e i) (personas w') = (Person True d, 200)
           \<and> d ''id'' = Some (VStr (new_id e i))
           \<and> (\<forall>k. k \<noteq> ''id'' \<longrightarrow> d k = record k)
           \<and> (\<exists>a s n b. (rows ! i) ''age'' = Some a \<and> py_int a = Inr n
                  \<and> (rows ! i) ''status'' = Some s \<and> py_bool s = Inr b
                  \<and> record = (rows ! i)(''age'' \<mapsto> VInt n, ''status'' \<mapsto> VBool b))"
proof -
  obtain db n errs where run: "process_rows e 0 rows (personas w, 0, []) = (db, n, errs)"
    by (cases "process_rows e 0 rows (personas w, 0, [])") auto
  have w': "personas w' = db"
    using upload_completes [OF assms(1-4) run] assms(5) by simp
  have acc: "accepted e (0 + i, rows ! i)"
    using assms(7,8) by (simp add: accepted_def)
  have others: "\<forall>l < length rows. l \<noteq> i \<longrightarrow> new_id e (0 + l) \<noteq> new_id e (0 + i)"
    using assms(9) by simp
  have "db (new_id e (0 + i)) = Some (fst (projr (validate_persona_data (rows ! i))))"
    by (rule process_rows_stored [OF assms(6) acc others run])
  then have stored: "db (new_id e i) = Some record"
    using assms(7) by simp
  have fetch: "get_person e (new_id e i) (personas w')
                 = (Person True (record(''id'' \<mapsto> VStr (new_id e i))), 200)"
    using stored assms(10) by (simp add: get_person_def with_id_def w')
  show ?thesis
    using fetch validate_valid_shape [OF assms(7)] by simp
qed

text \<open>The statement at the first of the three sample rows.\<close>

theorem import_then_fetch_witness:
  "\<exists>d. get_person (test_env (Inr test_rows) (\<lambda>i. None)) (test_id 0)
          (personas (snd (upload_personas_csv (test_env (Inr test_rows) (\<lambda>i. None))
                            (Some test_file) empty_world)))
        = (Person True d, 200)
     \<and> d ''id'' = Some (VStr (test_id 0))
     \<and> (\<forall>k. k \<noteq> ''id'' \<longrightarrow>
           d k = ((person_row (VStr ''34'') (VStr ''true''))
                    (''age'' \<mapsto> VInt 34, ''status'' \<mapsto> VBool True)) k)"
proof -
  let ?e = "test_env (Inr test_rows) (\<lambda>i. None)"
  have name: "filename test_file \<noteq> []" and ext: "allowed_file (filename test_file)"
    by (simp_all add: test_file_sel allowed_people)
  have up: "upload_personas_csv ?e (Some test_file) empty_world
              = (fst (upload_personas_csv ?e (Some test_file) empty_world),
                 snd (upload_personas_csv ?e (Some test_file) empty_world))"
    by simp
  have i: "0 < length test_rows"
    by (simp add: test_rows_def)
  have age: "py_int (VStr ''34'') = Inr 34"
    by (simp add: int_of_str_34)
  have "validate_persona_data (person_row (VStr ''34'') (VStr ''true'')) =
     Inr ((person_row (VStr ''34'') (VStr ''true''))(''age'' \<mapsto> VInt 34,
            ''status'' \<mapsto> VBool (''true'' \<noteq> [])), True, msg_valid)"
    by (rule validate_valid [OF person_row_present person_row_age person_row_status age]) simp
  then have valid: "validate_persona_data (test_rows ! 0) =
     Inr ((person_row (VStr ''34'') (VStr ''true''))(''age'' \<mapsto> VInt 34, ''status'' \<mapsto> VBool True),
          True, msg_valid)"
    by (simp add: test_rows_def)
  have wr: "set_exn ?e 0 = None"
    by (simp add: test_env_sel)
  have ids: "\<forall>j < length test_rows. j \<noteq> 0 \<longrightarrow> new_id ?e j \<noteq> new_id ?e 0"
    by (simp add: test_env_sel test_id_inj)
  show ?thesis
    using import_then_fetch [OF name ext test_env_sel(1) test_env_sel(2) up i valid wr ids
        test_env_sel(6)]
    by (simp only: test_env_sel) blast
qed

text \<open>
  Claim C8 as the specification words it asks for equality at every field, for every
  accepted row. Three requests where this fails. When two rows of one import draw the same
  identifier, both are reported inserted and fetching the identifier answers with the
  second row, whose age is 20 and not the 34 of the first. When the file has a column
  \<^verbatim>\<open>id\<close>, the fetched \<^verbatim>\<open>id\<close> is the identifier of the document and not the
  submitted \<^verbatim>\<open>old-id\<close>. When the read of the store raises, the answer is 500 and no
  record.
\<close>

theorem fetch_roundtrip_counterexample:
  "fst (upload_personas_csv (same_id_env (Inr twin_rows)) (Some test_file) empty_world)
     = (Report True [Lit ''Se insertaron '', Num 2, Lit '' registros exitosamente''] 2 2 None,
        200)
   \<and> get_person (same_id_env (Inr twin_rows)) ''6f1c0a9e3b7d425a8c01''
       (personas (snd (upload_personas_csv (same_id_env (Inr twin_rows)) (Some test_file)
                         empty_world)))
     = (Person True
          ((person_row (VInt 20) (VBool False))
             (''age'' \<mapsto> VInt 20, ''status'' \<mapsto> VBool False,
              ''id'' \<mapsto> VStr ''6f1c0a9e3b7d425a8c01'')),
        200)
   \<and> get_person (test_env (Inr [row_with_id]) (\<lambda>i. None)) (test_id 0)
       (personas (snd (upload_personas_csv (test_env (Inr [row_with_id]) (\<lambda>i. None))
                         (Some test_file) empty_world)))
     = (Person True
          (row_with_id(''age'' \<mapsto> VInt 34, ''status'' \<mapsto> VBool True, ''id'' \<mapsto> VStr ''0'')),
        200)
   \<and> row_with_id ''id'' = Some (VStr ''old-id'')
   \<and> get_person unread_env (test_id 0)
       (personas (snd (upload_personas_csv unread_env (Some test_file) empty_world)))
     = (Message False
          [Lit ''Error getting person: '', Str (ExternalError ''deadline exceeded'')],
        500)"
proof -
  have name: "filename test_file \<noteq> []" and ext: "allowed_file (filename test_file)"
    by (simp_all add: test_file_sel allowed_people)
  have twins: "upload_personas_csv (same_id_env (Inr twin_rows)) (Some test_file) empty_world
      = ((Report True [Lit ''Se insertaron '', Num 2, Lit '' registros exitosamente''] 2 2 None,
          200),
         \<lparr>files = (files empty_world)(''uploads/'' @ filename test_file := None),
          personas = [''6f1c0a9e3b7d425a8c01'' \<mapsto>
            (person_row (VInt 20) (VBool False))(''age'' \<mapsto> VInt 20, ''status'' \<mapsto> VBool False)]\<rparr>)"
    using upload_completes [OF name ext same_id_env_sel(1) same_id_env_sel(2) twin_rows_run]
    by (simp add: twin_rows_def same_id_env_def)
  have own: "personas (snd (upload_personas_csv (test_env (Inr [row_with_id]) (\<lambda>i. None))
                              (Some test_file) empty_world))
      = [test_id 0 \<mapsto> row_with_id(''age'' \<mapsto> VInt 34, ''status'' \<mapsto> VBool True)]"
    using upload_completes [OF name ext test_env_sel(1) test_env_sel(2) row_with_id_run]
    by simp
  have a: "fst (upload_personas_csv (same_id_env (Inr twin_rows)) (Some test_file) empty_world)
     = (Report True [Lit ''Se insertaron '', Num 2, Lit '' registros exitosamente''] 2 2 None,
        200)"
    by (simp add: twins)
  have b: "get_person (same_id_env (Inr twin_rows)) ''6f1c0a9e3b7d425a8c01''
       (personas (snd (upload_personas_csv (same_id_env (Inr twin_rows)) (Some test_file)
                         empty_world)))
     = (Person True
          ((person_row (VInt 20) (VBool False))
             (''age'' \<mapsto> VInt 20, ''status'' \<mapsto> VBool False,
              ''id'' \<mapsto> VStr ''6f1c0a9e3b7d425a8c01'')),
        200)"
    by (simp add: twins get_person_def with_id_def same_id_env_sel)
  have c: "get_person (test_env (Inr [row_with_id]) (\<lambda>i. None)) (test_id 0)
       (personas (snd (upload_personas_csv (test_env (Inr [row_with_id]) (\<lambda>i. None))
                         (Some test_file) empty_world)))
     = (Person True
          (row_with_id(''age'' \<mapsto> VInt 34, ''status'' \<mapsto> VBool True, ''id'' \<mapsto> VStr ''0'')),
        200)"
    by (simp add: own get_person_def with_id_def test_env_sel test_id_def)
  have d: "row_with_id ''id'' = Some (VStr ''old-id'')"
    by (simp add: row_with_id_def)
  have e: "get_person unread_env (test_id 0)
       (personas (snd (upload_personas_csv unread_env (Some test_file) empty_world)))
     = (Message False
          [Lit ''Error getting person: '', Str (ExternalError ''deadline exceeded'')],
        500)"
    by (simp add: get_person_def unread_env_def)
  from a b c d e show ?thesis by (intro conjI)
qed

text \<open>
  Claim C2 asks for a success flag that is false when no row is accepted. An upload whose
  only row lacks \<^verbatim>\<open>last_name\<close> completes with the status 400 and a body whose
  \<^verbatim>\<open>success\<close> is true.
\<close>

theorem all_rejected_success_flag:
  "fst (upload_personas_csv (test_env (Inr [[''name'' \<mapsto> VStr ''Ana'']]) (\<lambda>i. None))
          (Some short_file) empty_world)
     = (Report True
          [Lit ''Se insertaron '', Num 0, Lit '' de '', Num 1, Lit '' registros'']
          0 1 (Some [fila 0 (msg_missing ''last_name'')]),
        400)"
proof -
  have "validate_persona_data [''name'' \<mapsto> VStr ''Ana'']
          = Inr ([''name'' \<mapsto> VStr ''Ana''], False, msg_missing ''last_name'')"
    by (rule validate_missing) (simp add: required_fields_def)
  then have run: "process_rows (test_env (Inr [[''name'' \<mapsto> VStr ''Ana'']]) (\<lambda>i. None)) 0
          [[''name'' \<mapsto> VStr ''Ana'']] (personas empty_world, 0, [])
        = (personas empty_world, 0, [fila 0 (msg_missing ''last_name'')])"
    by simp
  have name: "filename short_file \<noteq> []" and ext: "allowed_file (filename short_file)"
    by (simp_all add: short_file_sel allowed_people)
  show ?thesis
    using upload_completes [OF name ext test_env_sel(1) test_env_sel(2) run]
    by simp
qed

text \<open>
  Claim C6 asks that the saved file be removed on every way out. When the parser raises,
  the handler answers 400 and the file is still in the upload folder.
\<close>

theorem parse_failure_keeps_file:
  "upload_personas_csv (test_env (Inl (ExternalError ''No columns to parse from file'')) (\<lambda>i. None))
     (Some empty_file) empty_world
     = ((Message False
           [Lit ''Error leyendo el archivo CSV: '',
            Str (ExternalError ''No columns to parse from file'')],
         400),
        \<lparr>files = [''uploads/people.csv'' \<mapsto> []], personas = Map.empty\<rparr>)"
  by (simp add: upload_personas_csv_def test_env_sel empty_file_sel allowed_people
        empty_world_def)

section \<open>Claims about the listing\<close>




text \<open>
  Claim C9. The limit is only clamped from above, so a requested limit of 0 stays 0; the
  request is then answered with the status 500 and a body whose \<^verbatim>\<open>success\<close> is
  false, and when both reads of the store succeed the fault is the division by zero in
  the number of pages.
\<close>

theorem limit_zero_fault:
  assumes "args_get limit_arg 10 = 0"
  shows "snd (get_persons e limit_arg page_arg) = 500
       \<and> \<not> body_success (fst (get_persons e limit_arg page_arg))
       \<and> (\<forall>docs everything.
            query_page e 0 0 = Inr docs \<longrightarrow> stream_all e = Inr everything \<longrightarrow>
            get_persons e limit_arg page_arg
              = (Message False [Lit ''Error getting persons: '', Str ZeroDivisionError], 500))"
  using assms
  by (simp add: get_persons_def Let_def persons_error_def split: sum.splits)

text \<open>The statement at the request \<^verbatim>\<open>limit=0\<close> on a collection of three documents.\<close>

theorem limit_zero_fault_witness:
  "get_persons (listing_env 3) (Some ''0'') None
     = (Message False [Lit ''Error getting persons: '', Str ZeroDivisionError], 500)"
proof -
  have z: "args_get (Some ''0'') 10 = 0"
    by (simp add: args_get_def int_of_str_0)
  show ?thesis
    by (rule limit_zero_fault [OF z, THEN conjunct2, THEN conjunct2, rule_format,
          OF listing_env_sel(1) listing_env_sel(2)])
qed

end
